theory Spec2Isabelle
  imports Main "HOL-Library.AList"
begin

section \<open>The session layer of the Asgardeo Node SDK\<close>

text \<open>
  The development embeds the class \<^verbatim>\<open>UserSession\<close> of
  \<^verbatim>\<open>lib/src/session/user-session.ts\<close>: the operations
  \<^verbatim>\<open>createUserSession\<close>, \<^verbatim>\<open>getUserSession\<close>, \<^verbatim>\<open>getUUID\<close> and
  \<^verbatim>\<open>destroyUserSession\<close>. Every operation is an \<^verbatim>\<open>async\<close> method: it returns a
  promise, which settles either fulfilled with a value or rejected with an exception.
\<close>

subsection \<open>Exceptions and promises\<close>

text \<open>
  \<^verbatim>\<open>AsgardeoAuthException\<close> is built from four strings, in the order the source passes
  them: code, name, message, description. Every other exception a collaborator may raise
  (the \<^verbatim>\<open>SyntaxError\<close> of \<^verbatim>\<open>JSON.parse\<close>, the \<^verbatim>\<open>TypeError\<close> of
  \<^verbatim>\<open>JSON.stringify\<close>, a failure of the store) is an \<open>Error\<close> with its name and a
  detail. The wording of the message of a \<^verbatim>\<open>SyntaxError\<close> differs between versions of
  the engine and is not modelled: the detail of a \<^verbatim>\<open>SyntaxError\<close> is the text that was
  refused.
\<close>

datatype exn =
    AsgardeoAuthException string string string string
  | Error string string

text \<open>
  A settled promise: \<open>Inl e\<close> is rejected with \<open>e\<close>, \<open>Inr x\<close> is fulfilled with \<open>x\<close>.
  Inside an \<^verbatim>\<open>async\<close> method a \<^verbatim>\<open>throw\<close> rejects the method's promise, so the
  same type is the outcome of a synchronous call that may throw.
\<close>

type_synonym 'a promise = "exn + 'a"

text \<open>Only an \<^verbatim>\<open>AsgardeoAuthException\<close> carries the structured fields.\<close>

fun structured :: "exn \<Rightarrow> bool" where
  "structured (AsgardeoAuthException code name message description) = True"
| "structured (Error name detail) = False"

subsection \<open>The store and the world\<close>

text \<open>
  \<^verbatim>\<open>Store\<close> is the interface of \<^verbatim>\<open>@asgardeo/auth-js\<close>; the implementation is chosen by
  the application. Each of its three methods returns a promise and may change the state
  \<open>'st\<close> that the implementation keeps.

  The class awaits every call of \<^verbatim>\<open>getData\<close> and of \<^verbatim>\<open>removeData\<close>. For an awaited
  call, a throw inside the call and a rejection of the returned promise both reject the
  awaiting method, and the method resumes only once the promise has settled: the two
  fields give the outcome and the state at that point.

  The class calls \<^verbatim>\<open>setData\<close> without awaiting it, so the two phases of that call are
  kept apart. The call itself may change the state, and either throws (\<open>Inl\<close>) or returns
  a promise (\<open>Inr\<close>). The promise is given as the work that remains until it settles: a
  function from the state of the store at that moment to the outcome of the promise and
  the state it leaves. A store that writes inside the call returns a promise with no work
  left; a store that writes once its backend answers returns the write as that work.
\<close>

record 'st Store =
  setData :: "string \<Rightarrow> string \<Rightarrow> 'st \<Rightarrow> (exn + ('st \<Rightarrow> unit promise \<times> 'st)) \<times> 'st"
  getData :: "string \<Rightarrow> 'st \<Rightarrow> string promise \<times> 'st"
  removeData :: "string \<Rightarrow> 'st \<Rightarrow> unit promise \<times> 'st"

datatype store_call = SetData string string | GetData string | RemoveData string

text \<open>
  The world an operation runs in: the state of the store; the store calls issued so far
  (oldest first); the rejections of promises that nobody awaited or returned, which reach
  no caller; and the promises that nobody awaited or returned and that have not settled
  yet, each as the work that remains (oldest first).
\<close>

record 'st world =
  store_state :: 'st
  store_calls :: "store_call list"
  unhandled :: "exn list"
  pending :: "('st \<Rightarrow> unit promise \<times> 'st) list"

definition call_setData ::
  "'st Store \<Rightarrow> string \<Rightarrow> string \<Rightarrow> 'st world
     \<Rightarrow> (exn + ('st \<Rightarrow> unit promise \<times> 'st)) \<times> 'st world" where
  "call_setData S key val w =
     (case setData S key val (store_state w) of
        (r, st) \<Rightarrow> (r, w\<lparr>store_state := st, store_calls := store_calls w @ [SetData key val]\<rparr>))"

definition call_getData ::
  "'st Store \<Rightarrow> string \<Rightarrow> 'st world \<Rightarrow> string promise \<times> 'st world" where
  "call_getData S key w =
     (case getData S key (store_state w) of
        (r, st) \<Rightarrow> (r, w\<lparr>store_state := st, store_calls := store_calls w @ [GetData key]\<rparr>))"

definition call_removeData ::
  "'st Store \<Rightarrow> string \<Rightarrow> 'st world \<Rightarrow> unit promise \<times> 'st world" where
  "call_removeData S key w =
     (case removeData S key (store_state w) of
        (r, st) \<Rightarrow> (r, w\<lparr>store_state := st, store_calls := store_calls w @ [RemoveData key]\<rparr>))"

text \<open>
  \<^verbatim>\<open>await p\<close>: a rejection of \<open>p\<close> rejects the awaiting method; a fulfilment hands the
  value to the rest of the method body.
\<close>

definition await ::
  "'a promise \<times> 'w \<Rightarrow> ('a \<Rightarrow> 'w \<Rightarrow> 'b promise \<times> 'w) \<Rightarrow> 'b promise \<times> 'w" where
  "await p rest = (case p of (Inl e, w) \<Rightarrow> (Inl e, w) | (Inr x, w) \<Rightarrow> rest x w)"

text \<open>
  The statement \<^verbatim>\<open>Promise.reject(e);\<close> makes a promise that is rejected from the start
  and has no effect on the store. Nobody awaits or returns it, so its rejection is
  unhandled.
\<close>

definition unhandledRejection :: "exn \<Rightarrow> 'st world \<Rightarrow> 'st world" where
  "unhandledRejection e w = w\<lparr>unhandled := unhandled w @ [e]\<rparr>"

text \<open>
  A promise returned by the store that is neither awaited nor returned: the method goes on
  at once, and the work of the promise stays pending.
\<close>

definition leave_pending :: "('st \<Rightarrow> unit promise \<times> 'st) \<Rightarrow> 'st world \<Rightarrow> 'st world" where
  "leave_pending p w = w\<lparr>pending := pending w @ [p]\<rparr>"

text \<open>
  A pending promise settles at some later moment, in no fixed order with the other pending
  ones. \<open>settle_at i\<close> is that moment for the promise at position \<open>i\<close>: its work runs on
  the state of the store as it then is, and a rejection is unhandled.
\<close>

definition settle_at :: "nat \<Rightarrow> 'st world \<Rightarrow> 'st world" where
  "settle_at i w =
     (if i < length (pending w) then
        (case (pending w ! i) (store_state w) of
           (r, st) \<Rightarrow>
             w\<lparr>store_state := st,
               unhandled := (case r of Inl e \<Rightarrow> unhandled w @ [e] | Inr x \<Rightarrow> unhandled w),
               pending := take i (pending w) @ drop (Suc i) (pending w)\<rparr>)
      else w)"

subsection \<open>The modules the class calls\<close>

text \<open>
  \<^verbatim>\<open>SessionUtils\<close> (module \<^verbatim>\<open>../utils\<close>) and the built-in \<^verbatim>\<open>JSON\<close> object are
  parameters. \<^verbatim>\<open>createUUID\<close> is called synchronously and its result is tested for
  truthiness; a string is falsy exactly when it is empty. \<^verbatim>\<open>validateUUID\<close> is awaited.
  \<^verbatim>\<open>JSON.stringify\<close> and \<^verbatim>\<open>JSON.parse\<close> may throw. \<open>'v\<close> is the type of the
  values that are serialised (the token response). A value of this record is the modules
  as they behave in one process at the moment of one call.
\<close>

record 'v modules =
  SessionUtils_createUUID :: "string \<Rightarrow> string"
  SessionUtils_validateUUID :: "string \<Rightarrow> bool promise"
  JSON_stringify :: "'v \<Rightarrow> string promise"
  JSON_parse :: "string \<Rightarrow> 'v promise"

subsection \<open>The class UserSession\<close>

text \<open>
  The store of the class (\<^verbatim>\<open>this._sessionStore\<close>, set by the constructor) is the
  argument \<open>S\<close> of each operation.

  \<^verbatim>\<open>createUserSession(sub, sessionData)\<close>, lines 31 to 50: the identifier is derived and
  tested for truthiness; the arguments of \<^verbatim>\<open>setData\<close> are evaluated before the call,
  so a throwing \<^verbatim>\<open>JSON.stringify\<close> rejects before the store is reached; a throw inside
  the call of \<^verbatim>\<open>setData\<close> rejects the method; the promise that \<^verbatim>\<open>setData\<close> returns
  is bound to \<^verbatim>\<open>new_session\<close> and neither awaited nor returned, so it stays pending
  while the method resolves with the identifier.
\<close>

definition createUserSession ::
  "'st Store \<Rightarrow> 'v modules \<Rightarrow> string \<Rightarrow> 'v \<Rightarrow> 'st world \<Rightarrow> string promise \<times> 'st world" where
  "createUserSession S M sub sessionData w =
     (let user_uuid = SessionUtils_createUUID M sub in
      if user_uuid = [] then
        (Inl (AsgardeoAuthException ''NODE_CORE-CUS1-NF01'' ''createUID()''
                ''Creating UID failed'' ''Could not create a UUID for the session.''), w)
      else
        await (JSON_stringify M sessionData, w) (\<lambda>json w.
          case call_setData S user_uuid json w of
            (Inl e, w) \<Rightarrow> (Inl e, w)
          | (Inr new_session, w) \<Rightarrow> (Inr user_uuid, leave_pending new_session w)))"

text \<open>
  \<^verbatim>\<open>getUserSession(uuid)\<close>, lines 52 to 56: \<^verbatim>\<open>getData\<close> is awaited and its value is
  handed to \<^verbatim>\<open>JSON.parse\<close>; there is no \<^verbatim>\<open>try\<close>.
\<close>

definition getUserSession ::
  "'st Store \<Rightarrow> 'v modules \<Rightarrow> string \<Rightarrow> 'st world \<Rightarrow> 'v promise \<times> 'st world" where
  "getUserSession S M uuid w =
     await (call_getData S uuid w) (\<lambda>sessionData w.
       (JSON_parse M sessionData, w))"

text \<open>\<^verbatim>\<open>getUUID(sub)\<close>, lines 58 to 62: the derived identifier, with no store call.\<close>

definition getUUID :: "'v modules \<Rightarrow> string \<Rightarrow> 'w \<Rightarrow> string promise \<times> 'w" where
  "getUUID M sub w = (let uuid = SessionUtils_createUUID M sub in (Inr uuid, w))"

text \<open>
  \<^verbatim>\<open>destroyUserSession(uuid)\<close>, lines 64 to 94: for a falsy \<^verbatim>\<open>uuid\<close> the statement
  \<^verbatim>\<open>Promise.reject(new AsgardeoAuthException(...))\<close> is executed without \<^verbatim>\<open>return\<close>,
  so the rejected promise is dropped and the method goes on; \<^verbatim>\<open>validateUUID\<close> is
  awaited; for a valid identifier \<^verbatim>\<open>removeData\<close> is awaited and the method resolves
  with \<^verbatim>\<open>true\<close> (the assignment \<^verbatim>\<open>uuid = ""\<close> changes a local variable only);
  otherwise it rejects.
\<close>

definition destroyUserSession ::
  "'st Store \<Rightarrow> 'v modules \<Rightarrow> string \<Rightarrow> 'st world \<Rightarrow> bool promise \<times> 'st world" where
  "destroyUserSession S M uuid w =
     (let w = (if uuid = [] then
                 unhandledRejection
                   (AsgardeoAuthException ''NODE_CORE-DUS1-NF01''
                      ''destroyUserSession()'' ''User UUID is not found''
                      ''No user UUID has passed as a parameter '') w
               else w) in
      await (SessionUtils_validateUUID M uuid, w) (\<lambda>isValidUUID w.
        if isValidUUID then
          await (call_removeData S uuid w) (\<lambda>removeData w.
            (Inr True, w))
        else
          (Inl (AsgardeoAuthException ''AUTH_CORE-RAT1-NV01'' ''removeData()''
                  ''Destroying session failed'' ''The provided UUID is not valid.''), w)))"

subsection \<open>The error kinds of the specification\<close>

text \<open>
  The specification names error kinds; the source raises one exception class with a code.
  The three kinds the class itself constructs are these values.
\<close>

definition InvalidSubjectError :: exn where
  "InvalidSubjectError =
     AsgardeoAuthException ''NODE_CORE-CUS1-NF01'' ''createUID()''
       ''Creating UID failed'' ''Could not create a UUID for the session.''"

definition MissingIdentifierError :: exn where
  "MissingIdentifierError =
     AsgardeoAuthException ''NODE_CORE-DUS1-NF01'' ''destroyUserSession()''
       ''User UUID is not found'' ''No user UUID has passed as a parameter ''"

definition InvalidSessionIdError :: exn where
  "InvalidSessionIdError =
     AsgardeoAuthException ''AUTH_CORE-RAT1-NV01'' ''removeData()''
       ''Destroying session failed'' ''The provided UUID is not valid.''"

subsection \<open>The contract of a store\<close>

text \<open>
  The specification (section 6) fixes what the session layer expects of a store:
  \<^verbatim>\<open>setData(key, value)\<close> writes the value at the key, \<^verbatim>\<open>getData(key)\<close> returns
  the value at the key and fails with a not-found signal when the key is absent,
  \<^verbatim>\<open>removeData(key)\<close> removes the key and an absent key is not an error. \<open>records\<close>
  reads the key/value content off the state of the implementation. The contract speaks of
  a call whose promise has settled; for \<^verbatim>\<open>setData\<close> that is the call followed at once
  by the work of its promise, which is what a caller that awaits the call observes.
\<close>

definition awaited_setData :: "'st Store \<Rightarrow> string \<Rightarrow> string \<Rightarrow> 'st \<Rightarrow> unit promise \<times> 'st" where
  "awaited_setData S key val st =
     (case setData S key val st of
        (Inl e, st) \<Rightarrow> (Inl e, st)
      | (Inr p, st) \<Rightarrow> p st)"

definition store_contract :: "'st Store \<Rightarrow> ('st \<Rightarrow> string \<rightharpoonup> string) \<Rightarrow> bool" where
  "store_contract S records \<longleftrightarrow>
     (\<forall>key val st. fst (awaited_setData S key val st) = Inr () \<and>
        records (snd (awaited_setData S key val st)) = (records st)(key \<mapsto> val)) \<and>
     (\<forall>key st. (case records st key of
                   Some val \<Rightarrow> fst (getData S key st) = Inr val
                 | None \<Rightarrow> isl (fst (getData S key st))) \<and>
        records (snd (getData S key st)) = records st) \<and>
     (\<forall>key st. fst (removeData S key st) = Inr () \<and>
        records (snd (removeData S key st)) = (records st)(key := None))"

text \<open>
  An in-memory store that meets the contract: an association list, with
  \<open>Error ''NotFound'' key\<close> as its not-found signal. It writes inside the call of
  \<^verbatim>\<open>setData\<close>; the promise it returns has no work left.
\<close>

definition nothing_left :: "'st \<Rightarrow> unit promise \<times> 'st" where
  "nothing_left st = (Inr (), st)"

definition MemoryStore :: "(string \<times> string) list Store" where
  "MemoryStore =
     \<lparr> setData = (\<lambda>key val st. (Inr nothing_left, AList.update key val st)),
       getData = (\<lambda>key st. (case map_of st key of
                               Some val \<Rightarrow> Inr val
                             | None \<Rightarrow> Inl (Error ''NotFound'' key), st)),
       removeData = (\<lambda>key st. (Inr (), AList.delete key st)) \<rparr>"

text \<open>
  The same store over a backend that answers later: the call of \<^verbatim>\<open>setData\<close> sends the
  write and returns; the record is written when the promise settles.
\<close>

definition write_later :: "string \<Rightarrow> string \<Rightarrow> (string \<times> string) list
    \<Rightarrow> unit promise \<times> (string \<times> string) list" where
  "write_later key val st = (Inr (), AList.update key val st)"

definition DeferredStore :: "(string \<times> string) list Store" where
  "DeferredStore =
     MemoryStore\<lparr> setData := (\<lambda>key val st. (Inr (write_later key val), st)) \<rparr>"

text \<open>The same store over a backend that refuses every write: the promise rejects.\<close>

definition refused :: "(string \<times> string) list \<Rightarrow> unit promise \<times> (string \<times> string) list" where
  "refused st = (Inl (Error ''StoreUnavailableError'' ''setData''), st)"

definition UnavailableStore :: "(string \<times> string) list Store" where
  "UnavailableStore =
     MemoryStore\<lparr> setData := (\<lambda>key val st. (Inr refused, st)) \<rparr>"

definition fresh :: "'st \<Rightarrow> 'st world" where
  "fresh st = \<lparr> store_state = st, store_calls = [], unhandled = [], pending = [] \<rparr>"

subsection \<open>SessionUtils\<close>

text \<open>
  Modelled from the spec: \<^verbatim>\<open>SessionUtils.createUUID\<close> (module \<^verbatim>\<open>../utils\<close>) is not
  among the sources. Section 4.1: the deriver requires a non-empty subject and fails on an
  empty one; it is a pure transform without side effects, a hash of the subject
  concatenated with a fixed, non-secret salt, and it yields the same identifier for the
  same subject in the same process or across processes. The hash and the salt are
  parameters. \<open>env\<close> stands for all that an implementation could read besides its
  argument: the process it runs in, the clock, a random source, the calls made before. The
  deriver of the specification reads none of it. Failure is the falsy (empty) result that
  \<^verbatim>\<open>createUserSession\<close> tests for.
\<close>

definition derive :: "(string \<Rightarrow> string) \<Rightarrow> string \<Rightarrow> 'e \<Rightarrow> string \<Rightarrow> string" where
  "derive hash salt env subject = (if subject = [] then [] else hash (subject @ salt))"

text \<open>
  For comparison, a deriver of the same type that the specification excludes: it mixes a
  seed taken from its environment into the hash, as a random identifier would.
\<close>

definition seeded :: "(string \<Rightarrow> string) \<Rightarrow> string \<Rightarrow> string \<Rightarrow> string" where
  "seeded hash env subject = (if subject = [] then [] else hash (env @ subject))"

text \<open>
  Modelled from the spec: \<^verbatim>\<open>SessionUtils.validateUUID\<close> (module \<^verbatim>\<open>../utils\<close>) is not
  among the sources. Section 4.2: a pure structural check of length and character set
  against the shape the deriver produces; it never throws, and a malformed or absent
  candidate yields false. The shape is the one of the identifier in the documentation of
  \<^verbatim>\<open>client.ts\<close>, \<^verbatim>\<open>a2a2972c-51cd-5e9d-a9ae-058fae9f7927\<close>: groups of 8, 4, 4, 4 and 12
  hexadecimal digits separated by dashes.
\<close>

definition is_hex :: "char \<Rightarrow> bool" where
  "is_hex c \<longleftrightarrow> c \<in> set ''0123456789abcdef''"

definition isValid :: "string \<Rightarrow> bool" where
  "isValid candidate \<longleftrightarrow>
     map (\<lambda>c. if is_hex c then CHR ''h'' else if c = CHR ''-'' then c else CHR ''?'') candidate
       = ''hhhhhhhh-hhhh-hhhh-hhhh-hhhhhhhhhhhh''"

text \<open>
  A stand-in for the hash, used where an operation is evaluated on a concrete input: the
  hexadecimal codes of the characters, padded with zeros and cut to 32 digits, in the shape
  that \<open>isValid\<close> accepts. It is not one-way; no statement below depends on that.
\<close>

definition hex_of_char :: "char \<Rightarrow> string" where
  "hex_of_char c =
     [''0123456789abcdef'' ! (of_char c div 16), ''0123456789abcdef'' ! (of_char c mod 16)]"

definition demo_hash :: "string \<Rightarrow> string" where
  "demo_hash s =
     (let d = take 32 (concat (map hex_of_char s) @ ''00000000000000000000000000000000'')
      in take 8 d @ ''-'' @ take 4 (drop 8 d) @ ''-'' @ take 4 (drop 12 d) @ ''-'' @
         take 4 (drop 16 d) @ ''-'' @ drop 20 d)"

subsection \<open>JSON on flat objects\<close>

text \<open>
  The token response is an object whose members are strings. For evaluation on concrete
  inputs, \<^verbatim>\<open>JSON.stringify\<close> and \<^verbatim>\<open>JSON.parse\<close> are instantiated on such objects:
  a list of named strings, in the order of the members, written as
  \<^verbatim>\<open>{"name":"value",...}\<close>.

  The instances answer on a fragment only, where they agree with the built-ins, and are
  left unspecified outside it. The fragment of objects: the names are distinct, no name
  begins with a digit (the built-ins move names that are array indices to the front), and
  names and values consist of printable ASCII characters, of which the built-ins escape the
  double quote (character 0x22) and the backslash (character 0x5C) by a backslash and
  nothing else.
\<close>

type_synonym flat_object = "(string \<times> string) list"

definition printable :: "char \<Rightarrow> bool" where
  "printable c \<longleftrightarrow> 32 \<le> (of_char c :: nat) \<and> (of_char c :: nat) \<le> 126"

definition plain_key :: "string \<Rightarrow> bool" where
  "plain_key k \<longleftrightarrow> (case k of [] \<Rightarrow> True | c # cs \<Rightarrow> c \<notin> set ''0123456789'')"

definition in_fragment :: "flat_object \<Rightarrow> bool" where
  "in_fragment obj \<longleftrightarrow>
     distinct (map fst obj) \<and>
     list_all (\<lambda>(k, v). plain_key k \<and> list_all printable k \<and> list_all printable v) obj"

fun escape :: "string \<Rightarrow> string" where
  "escape [] = []"
| "escape (c # cs) =
     (if c = CHR 0x22 \<or> c = CHR 0x5C then CHR 0x5C # c # escape cs else c # escape cs)"

definition quote :: "string \<Rightarrow> string" where
  "quote s = CHR 0x22 # escape s @ [CHR 0x22]"

fun members_text :: "flat_object \<Rightarrow> string" where
  "members_text [] = []"
| "members_text [(k, v)] = quote k @ '':'' @ quote v"
| "members_text ((k, v) # kvs) = quote k @ '':'' @ quote v @ '','' @ members_text kvs"

definition stringify_flat :: "flat_object \<Rightarrow> string promise" where
  "stringify_flat obj =
     (if in_fragment obj then Inr (''{'' @ members_text obj @ ''}'') else undefined)"

text \<open>
  Reading: a text whose first character can begin neither a JSON value nor JSON white space
  is refused with a \<^verbatim>\<open>SyntaxError\<close>, as the built-in refuses it. A text that is the
  JSON of an object of the fragment, with spaces allowed between its tokens, is read as
  that object. Every other text is left unspecified.
\<close>

definition no_json_start :: "string \<Rightarrow> bool" where
  "no_json_start text \<longleftrightarrow>
     (case text of
        [] \<Rightarrow> True
      | c # cs \<Rightarrow>
          c \<notin> set (''{[-0123456789tfn'' @ [CHR 0x22, CHR 0x20, CHR 0x09, CHR 0x0A, CHR 0x0D]))"

datatype token = LBrace | RBrace | Colon | Comma | Str string

text \<open>
  The first argument of \<open>tokenize\<close> is \<open>None\<close> outside a string literal and holds the
  characters read so far, latest first, inside one.
\<close>

fun tokenize :: "string option \<Rightarrow> string \<Rightarrow> token list option" where
  "tokenize None [] = Some []"
| "tokenize None (c # cs) =
     (if c = CHR ''{'' then map_option (Cons LBrace) (tokenize None cs)
      else if c = CHR ''}'' then map_option (Cons RBrace) (tokenize None cs)
      else if c = CHR '':'' then map_option (Cons Colon) (tokenize None cs)
      else if c = CHR '','' then map_option (Cons Comma) (tokenize None cs)
      else if c = CHR '' '' then tokenize None cs
      else if c = CHR 0x22 then tokenize (Some []) cs
      else None)"
| "tokenize (Some acc) [] = None"
| "tokenize (Some acc) [c] = (if c = CHR 0x22 then Some [Str (rev acc)] else None)"
| "tokenize (Some acc) (c # d # cs) =
     (if c = CHR 0x22 then map_option (Cons (Str (rev acc))) (tokenize None (d # cs))
      else if c = CHR 0x5C then
        (if d = CHR 0x22 \<or> d = CHR 0x5C then tokenize (Some (d # acc)) cs else None)
      else tokenize (Some (c # acc)) (d # cs))"

fun members :: "token list \<Rightarrow> flat_object option" where
  "members (Str k # Colon # Str v # t # ts) =
     (if t = RBrace \<and> ts = [] then Some [(k, v)]
      else if t = Comma then map_option (Cons (k, v)) (members ts)
      else None)"
| "members ts = None"

definition read_object :: "string \<Rightarrow> flat_object option" where
  "read_object text =
     (case tokenize None text of
        Some [LBrace, RBrace] \<Rightarrow> Some []
      | Some (LBrace # ts) \<Rightarrow> members ts
      | _ \<Rightarrow> None)"

definition parse_flat :: "string \<Rightarrow> flat_object promise" where
  "parse_flat text =
     (if no_json_start text then Inl (Error ''SyntaxError'' text)
      else case read_object text of
             Some obj \<Rightarrow> if in_fragment obj then Inr obj else undefined
           | None \<Rightarrow> undefined)"

subsection \<open>A concrete instance\<close>

definition DemoModules :: "flat_object modules" where
  "DemoModules =
     \<lparr> SessionUtils_createUUID = derive demo_hash ''#'' ''process 1'',
       SessionUtils_validateUUID = (\<lambda>candidate. Inr (isValid candidate)),
       JSON_stringify = stringify_flat,
       JSON_parse = parse_flat \<rparr>"

text \<open>
  The scenario of section 8 of the specification: subject \<^verbatim>\<open>user-42\<close> and the bundle
  \<^verbatim>\<open>{accessToken:"AT1", idToken:"IT1"}\<close>; \<open>demo_text\<close> is its serialisation
  \<^verbatim>\<open>{"accessToken":"AT1","idToken":"IT1"}\<close> and \<open>demo_uuid\<close> the identifier derived
  for the subject. A second bundle stands for a later sign-in of the same subject.
\<close>

definition demo_bundle :: flat_object where
  "demo_bundle = [(''accessToken'', ''AT1''), (''idToken'', ''IT1'')]"

definition demo_bundle2 :: flat_object where
  "demo_bundle2 = [(''accessToken'', ''AT2''), (''idToken'', ''IT2'')]"

definition demo_uuid :: string where
  "demo_uuid = ''75736572-2d34-3223-0000-000000000000''"

definition demo_text :: string where
  "demo_text = ''{'' @ quote ''accessToken'' @ '':'' @ quote ''AT1'' @ '','' @
                quote ''idToken'' @ '':'' @ quote ''IT1'' @ ''}''"

definition demo_text2 :: string where
  "demo_text2 = ''{'' @ quote ''accessToken'' @ '':'' @ quote ''AT2'' @ '','' @
                 quote ''idToken'' @ '':'' @ quote ''IT2'' @ ''}''"

section \<open>Properties\<close>

subsection \<open>Store calls and await\<close>

lemma call_setData_eq:
  "call_setData S key val w =
     (fst (setData S key val (store_state w)),
      w\<lparr>store_state := snd (setData S key val (store_state w)),
        store_calls := store_calls w @ [SetData key val]\<rparr>)"
  by (simp add: call_setData_def split: prod.split)

lemma call_getData_eq:
  "call_getData S key w =
     (fst (getData S key (store_state w)),
      w\<lparr>store_state := snd (getData S key (store_state w)),
        store_calls := store_calls w @ [GetData key]\<rparr>)"
  by (simp add: call_getData_def split: prod.split)

lemma call_removeData_eq:
  "call_removeData S key w =
     (fst (removeData S key (store_state w)),
      w\<lparr>store_state := snd (removeData S key (store_state w)),
        store_calls := store_calls w @ [RemoveData key]\<rparr>)"
  by (simp add: call_removeData_def split: prod.split)

lemma await_Inl: "await (Inl e, w) rest = (Inl e, w)"
  by (simp add: await_def)

lemma await_Inr: "await (Inr x, w) rest = rest x w"
  by (simp add: await_def)

subsection \<open>Consequences of the store contract\<close>

lemma contract_removeData:
  assumes "store_contract S records"
  shows "fst (removeData S key st) = Inr ()"
    and "records (snd (removeData S key st)) = (records st)(key := None)"
  using assms by (simp_all add: store_contract_def)

lemma MemoryStore_contract: "store_contract MemoryStore map_of"
  by (simp add: store_contract_def MemoryStore_def awaited_setData_def nothing_left_def
        update_conv' delete_conv' split: option.split)

lemma DeferredStore_contract: "store_contract DeferredStore map_of"
  by (simp add: store_contract_def DeferredStore_def MemoryStore_def awaited_setData_def
        write_later_def update_conv' delete_conv' split: option.split)

subsection \<open>The operations, step by step\<close>

lemma createUserSession_run:
  assumes "SessionUtils_createUUID M sub \<noteq> []"
    and "JSON_stringify M sessionData = Inr text"
    and "setData S (SessionUtils_createUUID M sub) text (store_state w) = (Inr p, st)"
  shows "createUserSession S M sub sessionData w =
           (Inr (SessionUtils_createUUID M sub),
            w\<lparr>store_state := st,
              store_calls := store_calls w @ [SetData (SessionUtils_createUUID M sub) text],
              pending := pending w @ [p]\<rparr>)"
  using assms
  by (simp add: createUserSession_def await_Inr Let_def call_setData_eq leave_pending_def)

lemma createUserSession_throw:
  assumes "SessionUtils_createUUID M sub \<noteq> []"
    and "JSON_stringify M sessionData = Inr text"
    and "setData S (SessionUtils_createUUID M sub) text (store_state w) = (Inl e, st)"
  shows "createUserSession S M sub sessionData w =
           (Inl e,
            w\<lparr>store_state := st,
              store_calls := store_calls w @ [SetData (SessionUtils_createUUID M sub) text]\<rparr>)"
  using assms
  by (simp add: createUserSession_def await_Inr Let_def call_setData_eq)

lemma getUserSession_run:
  "getUserSession S M uuid w =
     (case fst (getData S uuid (store_state w)) of
        Inl e \<Rightarrow> Inl e
      | Inr text \<Rightarrow> JSON_parse M text,
      w\<lparr>store_state := snd (getData S uuid (store_state w)),
        store_calls := store_calls w @ [GetData uuid]\<rparr>)"
  by (simp add: getUserSession_def call_getData_eq await_def split: sum.split)

lemma destroyUserSession_resolves:
  assumes "SessionUtils_validateUUID M uuid = Inr True"
    and "fst (removeData S uuid (store_state w)) = Inr ()"
  shows "fst (destroyUserSession S M uuid w) = Inr True"
proof (cases "uuid = []")
  case True
  with assms show ?thesis
    by (simp add: destroyUserSession_def unhandledRejection_def call_removeData_eq await_Inr)
next
  case False
  with assms show ?thesis
    by (simp add: destroyUserSession_def call_removeData_eq await_Inr)
qed

subsection \<open>The concrete instance, evaluated\<close>

lemma demo_id:
  "derive demo_hash ''#'' env ''user-42'' = ''75736572-2d34-3223-0000-000000000000''"
  by (simp add: derive_def demo_hash_def hex_of_char_def)

lemma demo_createUUID: "SessionUtils_createUUID DemoModules ''user-42'' = demo_uuid"
  by (simp add: DemoModules_def demo_uuid_def demo_id)

lemma demo_createUUID_empty: "SessionUtils_createUUID DemoModules [] = []"
  by (simp add: DemoModules_def derive_def)

lemma demo_in_fragment: "in_fragment demo_bundle" "in_fragment demo_bundle2"
  by (simp_all add: in_fragment_def plain_key_def printable_def demo_bundle_def
        demo_bundle2_def)

lemma demo_stringify: "JSON_stringify DemoModules demo_bundle = Inr demo_text"
  by (simp add: DemoModules_def stringify_flat_def demo_in_fragment)
     (simp add: demo_bundle_def demo_text_def)

lemma demo_stringify2: "JSON_stringify DemoModules demo_bundle2 = Inr demo_text2"
  by (simp add: DemoModules_def stringify_flat_def demo_in_fragment)
     (simp add: demo_bundle2_def demo_text2_def)

lemma demo_read: "read_object demo_text = Some demo_bundle"
  by (simp add: read_object_def demo_bundle_def demo_text_def quote_def)

lemma demo_read2: "read_object demo_text2 = Some demo_bundle2"
  by (simp add: read_object_def demo_bundle2_def demo_text2_def quote_def)

lemma demo_parse: "JSON_parse DemoModules demo_text = Inr demo_bundle"
  by (simp add: DemoModules_def parse_flat_def demo_read demo_in_fragment)
     (simp add: no_json_start_def demo_text_def)

lemma demo_parse2: "JSON_parse DemoModules demo_text2 = Inr demo_bundle2"
  by (simp add: DemoModules_def parse_flat_def demo_read2 demo_in_fragment)
     (simp add: no_json_start_def demo_text2_def)

lemma demo_parse_corrupt: "JSON_parse DemoModules ''AT1'' = Inl (Error ''SyntaxError'' ''AT1'')"
  by (simp add: DemoModules_def parse_flat_def no_json_start_def)

lemma demo_validate: "SessionUtils_validateUUID DemoModules demo_uuid = Inr True"
  by (simp add: DemoModules_def isValid_def is_hex_def demo_uuid_def)

lemma demo_validate_bad:
  "SessionUtils_validateUUID DemoModules ''not-a-real-id-shape'' = Inr False"
  by (simp add: DemoModules_def isValid_def is_hex_def)

lemma demo_validate_empty: "SessionUtils_validateUUID DemoModules [] = Inr False"
  by (simp add: DemoModules_def isValid_def)

lemma demo_uuid_nonempty: "demo_uuid \<noteq> []"
  by (simp add: demo_uuid_def)

text \<open>
  Over the store that writes inside the call, the record is there when the creation
  resolves, and reading the returned identifier gives the bundle back.
\<close>

lemma MemoryStore_create_then_get:
  "createUserSession MemoryStore DemoModules ''user-42'' demo_bundle (fresh []) =
     (Inr demo_uuid,
      \<lparr>store_state = [(demo_uuid, demo_text)], store_calls = [SetData demo_uuid demo_text],
       unhandled = [], pending = [nothing_left]\<rparr>)"
  "fst (getUserSession MemoryStore DemoModules demo_uuid
          \<lparr>store_state = [(demo_uuid, demo_text)], store_calls = [SetData demo_uuid demo_text],
           unhandled = [], pending = [nothing_left]\<rparr>) = Inr demo_bundle"
  by (simp_all add: createUserSession_run [where p = nothing_left
          and st = "[(demo_uuid, demo_text)]"]
        demo_createUUID demo_stringify demo_uuid_nonempty getUserSession_run demo_parse
        MemoryStore_def fresh_def)

text \<open>
  A throw inside the call of \<^verbatim>\<open>setData\<close>, before any promise is returned, rejects
  \<^verbatim>\<open>createUserSession\<close> with the exception thrown.
\<close>

lemma createUserSession_setData_throws:
  "createUserSession (MemoryStore\<lparr>setData := (\<lambda>key val st. (Inl (Error ''TypeError'' key), st))\<rparr>)
       DemoModules ''user-42'' demo_bundle (fresh [])
     = (Inl (Error ''TypeError'' demo_uuid),
        \<lparr>store_state = [], store_calls = [SetData demo_uuid demo_text], unhandled = [],
         pending = []\<rparr>)"
  by (simp add: createUserSession_throw [where e = "Error ''TypeError'' demo_uuid"
          and st = "[]"]
        demo_createUUID demo_stringify demo_uuid_nonempty MemoryStore_def fresh_def)

section \<open>The claims\<close>

subsection \<open>Destroying a session\<close>

text \<open>
  Claim C1. \<^verbatim>\<open>destroyUserSession("")\<close> is to fail with \<open>MissingIdentifierError\<close>,
  checked before any store access, with no store call issued.

  The source builds that exception inside a \<^verbatim>\<open>Promise.reject\<close> which it does not
  return. Evaluated at the empty identifier, with a validator that rejects the empty
  string: the \<open>MissingIdentifierError\<close> ends as an unhandled rejection, the method goes on
  to the validation and rejects with \<open>InvalidSessionIdError\<close>, a different exception. No
  store call is issued.
\<close>

theorem destroyUserSession_empty_id:
  "destroyUserSession MemoryStore DemoModules [] (fresh [])
     = (Inl InvalidSessionIdError,
        \<lparr>store_state = [], store_calls = [], unhandled = [MissingIdentifierError],
         pending = []\<rparr>) \<and>
   InvalidSessionIdError \<noteq> MissingIdentifierError"
  by (simp add: destroyUserSession_def await_Inr unhandledRejection_def demo_validate_empty
        fresh_def InvalidSessionIdError_def MissingIdentifierError_def)

text \<open>
  Claim C3. For every non-empty identifier that the validator rejects,
  \<^verbatim>\<open>destroyUserSession\<close> fails with \<open>InvalidSessionIdError\<close> and leaves the world as it
  found it: the state of the store is the same and the list of store calls has not grown,
  so \<^verbatim>\<open>removeData\<close> was not invoked.
\<close>

theorem destroyUserSession_invalid_shape:
  assumes "uuid \<noteq> []" and "SessionUtils_validateUUID M uuid = Inr False"
  shows "destroyUserSession S M uuid w = (Inl InvalidSessionIdError, w)"
  using assms by (simp add: destroyUserSession_def await_Inr InvalidSessionIdError_def)

theorem destroyUserSession_invalid_shape_witness:
  "''not-a-real-id-shape'' \<noteq> [] \<and>
   SessionUtils_validateUUID DemoModules ''not-a-real-id-shape'' = Inr False \<and>
   destroyUserSession MemoryStore DemoModules ''not-a-real-id-shape''
       (fresh [(demo_uuid, demo_text)])
     = (Inl InvalidSessionIdError, fresh [(demo_uuid, demo_text)])"
  using destroyUserSession_invalid_shape [where M = DemoModules
      and uuid = "''not-a-real-id-shape''" and S = MemoryStore
      and w = "fresh [(demo_uuid, demo_text)]"]
  by (simp add: demo_validate_bad)

text \<open>
  Claim C4. For every identifier that the validator accepts, over a store that meets the
  contract, \<^verbatim>\<open>destroyUserSession\<close> resolves with \<^verbatim>\<open>true\<close> in every world, whether
  or not a record exists at the identifier; called again in the world the first call left,
  it resolves with \<^verbatim>\<open>true\<close> again.
\<close>

theorem destroyUserSession_valid_twice:
  assumes "store_contract S records"
    and "SessionUtils_validateUUID M uuid = Inr True"
  shows "fst (destroyUserSession S M uuid w) = Inr True \<and>
         fst (destroyUserSession S M uuid (snd (destroyUserSession S M uuid w))) = Inr True"
  using assms(2)
  by (simp add: destroyUserSession_resolves contract_removeData(1) [OF assms(1)])

theorem destroyUserSession_valid_twice_witness:
  "store_contract MemoryStore map_of \<and>
   SessionUtils_validateUUID DemoModules demo_uuid = Inr True \<and>
   fst (destroyUserSession MemoryStore DemoModules demo_uuid
          (fresh [(demo_uuid, demo_text)])) = Inr True \<and>
   fst (destroyUserSession MemoryStore DemoModules demo_uuid
          (snd (destroyUserSession MemoryStore DemoModules demo_uuid
                  (fresh [(demo_uuid, demo_text)])))) = Inr True"
  using destroyUserSession_valid_twice [OF MemoryStore_contract demo_validate,
      where w = "fresh [(demo_uuid, demo_text)]"]
    MemoryStore_contract demo_validate
  by simp

subsection \<open>Creating and reading a session\<close>

text \<open>
  Claim C5. For every subject whose derivation fails (\<^verbatim>\<open>createUUID\<close> returns a falsy
  identifier), \<^verbatim>\<open>createUserSession\<close> rejects with \<open>InvalidSubjectError\<close> and the world
  is unchanged: no store call, the same store state.
\<close>

theorem createUserSession_underivable:
  assumes "SessionUtils_createUUID M sub = []"
  shows "createUserSession S M sub sessionData w = (Inl InvalidSubjectError, w)"
  using assms by (simp add: createUserSession_def InvalidSubjectError_def)

theorem createUserSession_underivable_witness:
  "SessionUtils_createUUID DemoModules [] = [] \<and>
   createUserSession MemoryStore DemoModules [] demo_bundle (fresh [(demo_uuid, demo_text)])
     = (Inl InvalidSubjectError, fresh [(demo_uuid, demo_text)])"
  using createUserSession_underivable [where M = DemoModules and sub = "[]"
      and S = MemoryStore and sessionData = demo_bundle
      and w = "fresh [(demo_uuid, demo_text)]"]
  by (simp add: demo_createUUID_empty)

text \<open>
  Claim C2. \<^verbatim>\<open>getUserSession\<close> applied to the identifier that
  \<^verbatim>\<open>createUserSession(s, b)\<close> returned, with no store mutation in between, is to return
  a record equal to \<open>b\<close>.

  The source does not await the promise of \<^verbatim>\<open>setData\<close>, so the creation resolves while
  the write may still be pending. Evaluated over the store that writes when its promise
  settles (it meets the contract for every awaited call): the creation resolves with the
  identifier, the store holds no record yet, and the read that follows at once is rejected
  with the not-found signal of the store instead of returning the bundle.
\<close>

theorem createUserSession_read_before_write:
  "createUserSession DeferredStore DemoModules ''user-42'' demo_bundle (fresh [])
     = (Inr demo_uuid,
        \<lparr>store_state = [], store_calls = [SetData demo_uuid demo_text], unhandled = [],
         pending = [write_later demo_uuid demo_text]\<rparr>) \<and>
   getUserSession DeferredStore DemoModules demo_uuid
       \<lparr>store_state = [], store_calls = [SetData demo_uuid demo_text], unhandled = [],
        pending = [write_later demo_uuid demo_text]\<rparr>
     = (Inl (Error ''NotFound'' demo_uuid),
        \<lparr>store_state = [], store_calls = [SetData demo_uuid demo_text, GetData demo_uuid],
         unhandled = [], pending = [write_later demo_uuid demo_text]\<rparr>)"
  by (simp add: createUserSession_run [where p = "write_later demo_uuid demo_text"
          and st = "[]"]
        demo_createUUID demo_stringify demo_uuid_nonempty getUserSession_run
        DeferredStore_def MemoryStore_def fresh_def)

text \<open>
  Claim C9. \<^verbatim>\<open>createUserSession(s, b1)\<close> followed by \<^verbatim>\<open>createUserSession(s, b2)\<close> is
  to leave one record for the subject, at the derived identifier and equal to \<open>b2\<close>.

  Neither call awaits its write. Evaluated over the store that writes when its promise
  settles: both calls resolve with the same identifier while both writes are pending, so
  the store holds no record when the second call resolves; and when the second write
  lands before the first, the record that stays is the serialised \<open>b1\<close>, which is not the
  serialised \<open>b2\<close>.
\<close>

theorem createUserSession_twice_unsettled:
  "createUserSession DeferredStore DemoModules ''user-42'' demo_bundle (fresh [])
     = (Inr demo_uuid,
        \<lparr>store_state = [], store_calls = [SetData demo_uuid demo_text], unhandled = [],
         pending = [write_later demo_uuid demo_text]\<rparr>) \<and>
   createUserSession DeferredStore DemoModules ''user-42'' demo_bundle2
       \<lparr>store_state = [], store_calls = [SetData demo_uuid demo_text], unhandled = [],
        pending = [write_later demo_uuid demo_text]\<rparr>
     = (Inr demo_uuid,
        \<lparr>store_state = [],
         store_calls = [SetData demo_uuid demo_text, SetData demo_uuid demo_text2],
         unhandled = [],
         pending = [write_later demo_uuid demo_text, write_later demo_uuid demo_text2]\<rparr>) \<and>
   store_state
     (settle_at 0 (settle_at 1
        \<lparr>store_state = [],
         store_calls = [SetData demo_uuid demo_text, SetData demo_uuid demo_text2],
         unhandled = [],
         pending = [write_later demo_uuid demo_text, write_later demo_uuid demo_text2]\<rparr>))
     = [(demo_uuid, demo_text)] \<and>
   demo_text \<noteq> demo_text2"
  by (simp add: createUserSession_run [where p = "write_later demo_uuid demo_text"
          and st = "[]"]
        createUserSession_run [where p = "write_later demo_uuid demo_text2" and st = "[]"]
        demo_createUUID demo_stringify demo_stringify2 demo_uuid_nonempty
        DeferredStore_def MemoryStore_def fresh_def settle_at_def write_later_def
        demo_text_def demo_text2_def quote_def)

text \<open>
  Claim C10. \<^verbatim>\<open>getUserSession\<close> issues one store call, the \<^verbatim>\<open>getData\<close> of its
  argument, whether it succeeds or fails: the call list grows by that entry alone and no
  rejection is dropped. Where that read leaves the state of the store as it was, the state
  after \<^verbatim>\<open>getUserSession\<close> is the state before it.
\<close>

theorem getUserSession_reads_once:
  "store_calls (snd (getUserSession S M uuid w)) = store_calls w @ [GetData uuid] \<and>
   unhandled (snd (getUserSession S M uuid w)) = unhandled w \<and>
   (snd (getData S uuid (store_state w)) = store_state w \<longrightarrow>
      store_state (snd (getUserSession S M uuid w)) = store_state w)"
  by (simp add: getUserSession_def call_getData_eq await_def split: sum.split)

theorem getUserSession_reads_once_witness:
  "snd (getData MemoryStore demo_uuid [(demo_uuid, demo_text)]) = [(demo_uuid, demo_text)] \<and>
   store_calls (snd (getUserSession MemoryStore DemoModules demo_uuid
                       (fresh [(demo_uuid, demo_text)]))) = [GetData demo_uuid] \<and>
   store_state (snd (getUserSession MemoryStore DemoModules demo_uuid
                       (fresh [(demo_uuid, demo_text)]))) = [(demo_uuid, demo_text)]"
  using getUserSession_reads_once [where S = MemoryStore and M = DemoModules
      and uuid = demo_uuid and w = "fresh [(demo_uuid, demo_text)]"]
  by (simp add: MemoryStore_def fresh_def)

subsection \<open>Failures\<close>

text \<open>
  Claim C6, as stated: a stored value that cannot be deserialised makes
  \<^verbatim>\<open>getUserSession\<close> fail with a structured \<open>CorruptSessionError\<close>, not with the raw
  exception of the deserialisation. With \<^verbatim>\<open>AT1\<close> stored at the identifier,
  \<^verbatim>\<open>JSON.parse\<close> raises a \<^verbatim>\<open>SyntaxError\<close> and \<^verbatim>\<open>getUserSession\<close> rejects with that
  very exception, which carries no structured fields.
\<close>

theorem getUserSession_corrupt_counterexample:
  "JSON_parse DemoModules ''AT1'' = Inl (Error ''SyntaxError'' ''AT1'') \<and>
   getUserSession MemoryStore DemoModules demo_uuid (fresh [(demo_uuid, ''AT1'')])
     = (Inl (Error ''SyntaxError'' ''AT1''),
        \<lparr>store_state = [(demo_uuid, ''AT1'')], store_calls = [GetData demo_uuid],
         unhandled = [], pending = []\<rparr>) \<and>
   \<not> structured (Error ''SyntaxError'' ''AT1'')"
  by (simp add: getUserSession_run demo_parse_corrupt MemoryStore_def fresh_def)

text \<open>
  Claim C6, amended. \<^verbatim>\<open>getUserSession\<close> adds no exception of its own: when
  \<^verbatim>\<open>getData\<close> rejects (the not-found signal of the store for an absent record), the
  method rejects with that same exception; otherwise its outcome is the outcome of
  \<^verbatim>\<open>JSON.parse\<close> on the stored text, so a text that cannot be deserialised rejects with
  the exception that \<^verbatim>\<open>JSON.parse\<close> raised.
\<close>

theorem getUserSession_failures_unwrapped:
  "fst (getUserSession S M uuid w) =
     (case fst (getData S uuid (store_state w)) of
        Inl e \<Rightarrow> Inl e
      | Inr text \<Rightarrow> JSON_parse M text)"
  by (simp add: getUserSession_run)

text \<open>
  Claim C7. A failing store call is to reject the operation that issued it; in particular
  a failing \<^verbatim>\<open>setData\<close> is to reject \<^verbatim>\<open>createUserSession\<close>.

  \<^verbatim>\<open>getUserSession\<close> and \<^verbatim>\<open>destroyUserSession\<close> await their store call;
  \<^verbatim>\<open>createUserSession\<close> does not. Evaluated over a store whose \<^verbatim>\<open>setData\<close> returns a
  promise that rejects: the method resolves with the identifier while that promise is
  pending; when the promise settles, nothing is stored and the rejection of the store is
  left unhandled.
\<close>

theorem createUserSession_swallows_setData_rejection:
  "createUserSession UnavailableStore DemoModules ''user-42'' demo_bundle (fresh [])
     = (Inr demo_uuid,
        \<lparr>store_state = [], store_calls = [SetData demo_uuid demo_text], unhandled = [],
         pending = [refused]\<rparr>) \<and>
   settle_at 0
       \<lparr>store_state = [], store_calls = [SetData demo_uuid demo_text], unhandled = [],
        pending = [refused]\<rparr>
     = \<lparr>store_state = [], store_calls = [SetData demo_uuid demo_text],
        unhandled = [Error ''StoreUnavailableError'' ''setData''], pending = []\<rparr>"
  by (simp add: createUserSession_run [where p = refused and st = "[]"]
        demo_createUUID demo_stringify demo_uuid_nonempty
        UnavailableStore_def MemoryStore_def fresh_def settle_at_def refused_def)

subsection \<open>Derivation\<close>



text \<open>
  The agreement rests on the deriver: with the seeded deriver in its place, two
  processes obtain different identifiers for the same subject.
\<close>

lemma getUUID_seeded_differs:
  "fst (getUUID (DemoModules\<lparr>SessionUtils_createUUID := seeded demo_hash ''1''\<rparr>)
          ''user-42'' w1)
     \<noteq> fst (getUUID (DemoModules\<lparr>SessionUtils_createUUID := seeded demo_hash ''2''\<rparr>)
          ''user-42'' w2)"
  by (simp add: getUUID_def seeded_def demo_hash_def hex_of_char_def)

end
